theory Spec2Isabelle
  imports Complex_Main "HOL-Library.Multiset" "HOL-Library.Product_Lexorder"
begin

section \<open>The data processing block of app.py\<close>

text \<open>
  The dashboard's only computation is the block at the top of \<^verbatim>\<open>app.py\<close> (lines 11 to 36)
  and the four aggregates the layout derives from its result \<^verbatim>\<open>df\<close> (lines 89, 95, 101 and
  153 to 154). The block reads two CSV files, gives each a \<^verbatim>\<open>Date_Clean\<close> column, joins
  them on it, adds a \<^verbatim>\<open>Win\<close> column, and on any exception falls back to an empty frame.

  What the embedding fixes:
  \<^item> a calendar date (\<^verbatim>\<open>datetime.date\<close>) is the triple (year, month, day), ordered
    lexicographically as Python orders dates; \<^verbatim>\<open>NaT\<close> is \<open>None\<close>;
  \<^item> a \<^verbatim>\<open>Closed PnL\<close> cell is a number or \<^verbatim>\<open>NaN\<close> (an empty cell), \<open>None\<close> being
    \<^verbatim>\<open>NaN\<close>; a column that \<^verbatim>\<open>read_csv\<close> leaves as text is outside the model. Numbers
    are rationals. The sums of lines 89 and 154 are modelled in exact arithmetic
    (\<open>nansum\<close>, \<open>cumsum\<close>), and again with every addition rounded as float64 addition
    is (\<open>np_sum\<close>, \<open>float_cumsum\<close>) for what depends on the order of the additions;
  \<^item> the two calls of \<^verbatim>\<open>pd.to_datetime( ).dt.date\<close> are parameters of the loader, one
    function from the raw cell to a date or \<^verbatim>\<open>NaT\<close> for each file: with
    \<^verbatim>\<open>errors='coerce'\<close> a cell that does not parse gives \<^verbatim>\<open>NaT\<close> and nothing is raised;
  \<^item> what \<^verbatim>\<open>pd.read_csv\<close> returns for each file is the loader's input: the rows, or the
    exception it raised;
  \<^item> of the CSV columns only those the program reads are kept.
\<close>

type_synonym cal_date = "nat \<times> nat \<times> nat"

datatype py_exception =
  FileNotFoundError | PermissionError | EmptyDataError | ParserError | UnicodeDecodeError

text \<open>A row of \<^verbatim>\<open>df_hist\<close> and a row of \<^verbatim>\<open>df_fg\<close>, as \<^verbatim>\<open>read_csv\<close> returns them.\<close>

record hist_row =
  hist_Timestamp_IST :: string
  hist_Closed_PnL :: "rat option"
  hist_Side :: string
  hist_Coin :: string

record fg_row =
  fg_date :: string
  fg_classification :: string

text \<open>
  A row of \<^verbatim>\<open>df\<close>: the columns of the left frame, the key, the columns of the right frame
  and \<^verbatim>\<open>Win\<close>, in the order \<^verbatim>\<open>pd.merge\<close> and line 29 put them.
\<close>

record row =
  Timestamp_IST :: string
  Closed_PnL :: "rat option"
  Side :: string
  Coin :: string
  Date_Clean :: "cal_date option"
  date :: string
  classification :: string
  Win :: int

record frame =
  columns :: "string list"
  rows :: "row list"

subsection \<open>Lines 19 and 22: the key column\<close>

definition hist_Date_Clean ::
  "(string \<Rightarrow> cal_date option) \<Rightarrow> hist_row list \<Rightarrow> (hist_row \<times> cal_date option) list" where
  "hist_Date_Clean to_datetime df_hist =
     map (\<lambda>r. (r, to_datetime (hist_Timestamp_IST r))) df_hist"

definition fg_Date_Clean ::
  "(string \<Rightarrow> cal_date option) \<Rightarrow> fg_row list \<Rightarrow> (fg_row \<times> cal_date option) list" where
  "fg_Date_Clean to_datetime df_fg =
     map (\<lambda>r. (r, to_datetime (fg_date r))) df_fg"

subsection \<open>Line 26: the inner join\<close>

text \<open>
  \<^verbatim>\<open>pd.merge(df_hist, df_fg, on='Date_Clean', how='inner')\<close>. pandas factorises the keys
  of both frames together and gives every null key (\<^verbatim>\<open>None\<close>, \<^verbatim>\<open>NaN\<close>, \<^verbatim>\<open>NaT\<close>) the same
  group, so null keys of the left frame are matched with null keys of the right frame.
  Its documentation says so: "If both key columns contain rows where the key is a null
  value, those rows will be matched against each other. This is different from usual SQL
  join behaviour and can lead to unexpected results." \<open>keys_match\<close> writes the two cases
  out.

  The result keeps the order of the left keys: the rows of the left frame in their order,
  each with its matching rows of the right frame in theirs.
\<close>

definition keys_match :: "cal_date option \<Rightarrow> cal_date option \<Rightarrow> bool" where
  "keys_match a b =
     (case a of
        None \<Rightarrow> (case b of None \<Rightarrow> True | Some y \<Rightarrow> False)
      | Some x \<Rightarrow> (case b of None \<Rightarrow> False | Some y \<Rightarrow> x = y))"

definition merge_inner ::
  "(hist_row \<times> cal_date option) list \<Rightarrow> (fg_row \<times> cal_date option) list
     \<Rightarrow> (hist_row \<times> cal_date option \<times> fg_row) list" where
  "merge_inner left right =
     concat (map (\<lambda>(h, k). map (\<lambda>(g, k'). (h, k, g))
                                (filter (\<lambda>(g, k'). keys_match k k') right)) left)"

subsection \<open>Line 29: the Win column\<close>

text \<open>
  \<^verbatim>\<open>lambda x: 1 if x > 0 else 0\<close>. Every comparison with \<^verbatim>\<open>NaN\<close> is false, so a missing
  \<^verbatim>\<open>Closed PnL\<close> takes the \<^verbatim>\<open>else\<close> branch.
\<close>

definition win_of :: "rat option \<Rightarrow> int" where
  "win_of x = (case x of None \<Rightarrow> 0 | Some v \<Rightarrow> if v > 0 then 1 else 0)"

definition assign_Win :: "hist_row \<times> cal_date option \<times> fg_row \<Rightarrow> row" where
  "assign_Win m =
     (case m of (h, k, g) \<Rightarrow>
        \<lparr>Timestamp_IST = hist_Timestamp_IST h,
         Closed_PnL = hist_Closed_PnL h,
         Side = hist_Side h,
         Coin = hist_Coin h,
         Date_Clean = k,
         date = fg_date g,
         classification = fg_classification g,
         Win = win_of (hist_Closed_PnL h)\<rparr>)"

subsection \<open>Lines 11 to 36: try and except\<close>

definition merged_columns :: "string list" where
  "merged_columns =
     [''Timestamp IST'', ''Closed PnL'', ''Side'', ''Coin'', ''Date_Clean'',
      ''date'', ''classification'', ''Win'']"

definition empty_frame :: frame where
  "empty_frame =
     \<lparr>columns = [''Date_Clean'', ''classification'', ''Closed PnL'', ''Win'', ''Side'', ''Coin''],
      rows = []\<rparr>"

text \<open>
  The body of \<^verbatim>\<open>try\<close>: the first \<^verbatim>\<open>read_csv\<close> that raises ends it, the second file is then
  not read.
\<close>

definition try_block ::
  "(string \<Rightarrow> cal_date option) \<Rightarrow> (string \<Rightarrow> cal_date option)
     \<Rightarrow> py_exception + hist_row list \<Rightarrow> py_exception + fg_row list
     \<Rightarrow> py_exception + frame" where
  "try_block to_datetime_hist to_datetime_fg hist_csv fg_csv =
     (case hist_csv of
        Inl e \<Rightarrow> Inl e
      | Inr df_hist \<Rightarrow>
          (case fg_csv of
             Inl e \<Rightarrow> Inl e
           | Inr df_fg \<Rightarrow>
               Inr \<lparr>columns = merged_columns,
                    rows = map assign_Win
                             (merge_inner (hist_Date_Clean to_datetime_hist df_hist)
                                          (fg_Date_Clean to_datetime_fg df_fg))\<rparr>))"

text \<open>\<^verbatim>\<open>except Exception\<close>: whatever was raised, \<^verbatim>\<open>df\<close> is the empty frame of line 36.\<close>

definition load_data ::
  "(string \<Rightarrow> cal_date option) \<Rightarrow> (string \<Rightarrow> cal_date option)
     \<Rightarrow> py_exception + hist_row list \<Rightarrow> py_exception + fg_row list \<Rightarrow> frame" where
  "load_data to_datetime_hist to_datetime_fg hist_csv fg_csv =
     (case try_block to_datetime_hist to_datetime_fg hist_csv fg_csv of
        Inl e \<Rightarrow> empty_frame
      | Inr df \<Rightarrow> df)"

section \<open>The aggregates of the layout\<close>

text \<open>
  Line 89, \<^verbatim>\<open>df['Closed PnL'].sum()\<close>: pandas skips \<^verbatim>\<open>NaN\<close> (\<^verbatim>\<open>skipna=True\<close>) and the sum
  of no value is 0.
\<close>

fun nansum :: "rat option list \<Rightarrow> rat" where
  "nansum [] = 0"
| "nansum (None # xs) = nansum xs"
| "nansum (Some v # xs) = v + nansum xs"

definition total_pnl :: "frame \<Rightarrow> rat" where
  "total_pnl df = nansum (map Closed_PnL (rows df))"

text \<open>Line 95, \<^verbatim>\<open>len(df)\<close>.\<close>

definition trade_count :: "frame \<Rightarrow> nat" where
  "trade_count df = length (rows df)"

text \<open>
  Line 101, \<^verbatim>\<open>df['Win'].mean()\<close>: the sum over the count; the mean of an empty column is
  \<^verbatim>\<open>NaN\<close> and nothing is raised. The \<^verbatim>\<open>Win\<close> column holds integers and no \<^verbatim>\<open>NaN\<close>.
\<close>

definition mean_of :: "int list \<Rightarrow> rat option" where
  "mean_of xs = (if xs = [] then None else Some (of_int (sum_list xs) / of_nat (length xs)))"

definition win_rate :: "frame \<Rightarrow> rat option" where
  "win_rate df = mean_of (map Win (rows df))"

text \<open>
  Lines 153 and 154, \<^verbatim>\<open>df.sort_values('Date_Clean')\<close>: the default \<^verbatim>\<open>kind='quicksort'\<close> is
  not a stable sort (of the kinds pandas offers only \<^verbatim>\<open>mergesort\<close> and \<^verbatim>\<open>stable\<close> are), so
  the call fixes the order of the rows only up to the order of rows with equal dates.
  \<open>sort_values_result df s\<close> says that \<open>s\<close> is a frame the call may return for \<open>df\<close>: the
  same rows, dates ascending, rows with a null date last (\<^verbatim>\<open>na_position='last'\<close>) and
  those in their original order.
\<close>

fun key_le :: "cal_date option \<Rightarrow> cal_date option \<Rightarrow> bool" where
  "key_le None None = True"
| "key_le None (Some b) = False"
| "key_le (Some a) None = True"
| "key_le (Some a) (Some b) = (a \<le> b)"

definition isna :: "row \<Rightarrow> bool" where
  "isna r = (Date_Clean r = None)"

definition sort_values_result :: "frame \<Rightarrow> frame \<Rightarrow> bool" where
  "sort_values_result df s =
     (columns s = columns df \<and>
      mset (rows s) = mset (rows df) \<and>
      sorted_wrt key_le (map Date_Clean (rows s)) \<and>
      filter isna (rows s) = filter isna (rows df))"

text \<open>
  \<^verbatim>\<open>cumsum()\<close> with \<^verbatim>\<open>skipna=True\<close>: a \<^verbatim>\<open>NaN\<close> stays \<^verbatim>\<open>NaN\<close> at its position and adds
  nothing to the running total.
\<close>

fun cumsum_from :: "rat \<Rightarrow> rat option list \<Rightarrow> rat option list" where
  "cumsum_from acc [] = []"
| "cumsum_from acc (None # xs) = None # cumsum_from acc xs"
| "cumsum_from acc (Some v # xs) = Some (acc + v) # cumsum_from (acc + v) xs"

definition cumsum :: "rat option list \<Rightarrow> rat option list" where
  "cumsum xs = cumsum_from 0 xs"

text \<open>
  The line chart of a sorted frame \<open>s\<close>: \<^verbatim>\<open>x='Date_Clean'\<close> against the cumulative sum of
  its \<^verbatim>\<open>Closed PnL\<close> column.
\<close>

definition cumulative_pnl :: "frame \<Rightarrow> (cal_date option \<times> rat option) list" where
  "cumulative_pnl s = zip (map Date_Clean (rows s)) (cumsum (map Closed_PnL (rows s)))"

text \<open>
  The order the specification describes: a stable sort by date, null dates last. It is
  an insertion sort that puts a row before the first row with a date not smaller than
  its own, rows taken from the last to the first.
\<close>

fun insort_date :: "row \<Rightarrow> row list \<Rightarrow> row list" where
  "insort_date x [] = [x]"
| "insort_date x (y # ys) =
     (if key_le (Date_Clean x) (Date_Clean y) then x # y # ys else y # insort_date x ys)"

definition stable_sort_values :: "frame \<Rightarrow> frame" where
  "stable_sort_values df = df\<lparr>rows := foldr insort_date (rows df) []\<rparr>"

section \<open>The sums in float64\<close>

text \<open>
  The \<^verbatim>\<open>Closed PnL\<close> column is float64, and a float64 addition returns the exact sum
  rounded to a float64 number (IEEE 754). The rounding is a parameter \<open>rnd\<close> of the
  definitions of this section, so that they hold for any rounding; \<open>binary64\<close> is the
  rounding of float64 itself, to the nearest number with a significand of 53 bits, a tie
  going to the even significand, with the subnormal numbers below 2 to the power -1022. Overflow to infinity is
  outside the model.
\<close>

definition round_half_even :: "rat \<Rightarrow> int" where
  "round_half_even y =
     (let f = \<lfloor>y\<rfloor>; d = y - of_int f
      in if d < 1 / 2 then f else if 1 / 2 < d then f + 1 else if even f then f else f + 1)"

fun floor_log2 :: "nat \<Rightarrow> rat \<Rightarrow> int" where
  "floor_log2 0 y = 0"
| "floor_log2 (Suc n) y =
     (if 2 \<le> y then floor_log2 n (y / 2) + 1
      else if y < 1 then floor_log2 n (y * 2) - 1
      else 0)"

definition quantum :: "int \<Rightarrow> rat" where
  "quantum e = (if 52 \<le> e then 2 ^ nat (e - 52) else 1 / 2 ^ nat (52 - e))"

definition binary64 :: "rat \<Rightarrow> rat" where
  "binary64 x =
     (if x = 0 then 0
      else let q = quantum (max (floor_log2 1100 \<bar>x\<bar>) (- 1022))
           in of_int (round_half_even (x / q)) * q)"

text \<open>
  Line 154, \<^verbatim>\<open>cumsum()\<close> on a float64 column: pandas puts 0 where the column has \<^verbatim>\<open>NaN\<close>,
  runs \<^verbatim>\<open>np.cumsum\<close>, which keeps the first number and adds the others to it one after
  the other, and puts \<^verbatim>\<open>NaN\<close> back at those positions.
\<close>

definition zero_filled :: "rat option list \<Rightarrow> rat list" where
  "zero_filled xs = map (\<lambda>x. case x of None \<Rightarrow> 0 | Some v \<Rightarrow> v) xs"

fun accumulate :: "(rat \<Rightarrow> rat) \<Rightarrow> rat \<Rightarrow> rat list \<Rightarrow> rat list" where
  "accumulate rnd acc [] = []"
| "accumulate rnd acc (v # vs) = rnd (acc + v) # accumulate rnd (rnd (acc + v)) vs"

definition np_cumsum :: "(rat \<Rightarrow> rat) \<Rightarrow> rat list \<Rightarrow> rat list" where
  "np_cumsum rnd vs = (case vs of [] \<Rightarrow> [] | v # vs' \<Rightarrow> v # accumulate rnd v vs')"

definition float_cumsum :: "(rat \<Rightarrow> rat) \<Rightarrow> rat option list \<Rightarrow> rat option list" where
  "float_cumsum rnd xs =
     map (\<lambda>(x, c). case x of None \<Rightarrow> None | Some v \<Rightarrow> Some c)
       (zip xs (np_cumsum rnd (zero_filled xs)))"

definition float_cumulative_pnl ::
  "(rat \<Rightarrow> rat) \<Rightarrow> frame \<Rightarrow> (cal_date option \<times> rat option) list" where
  "float_cumulative_pnl rnd s =
     zip (map Date_Clean (rows s)) (float_cumsum rnd (map Closed_PnL (rows s)))"

text \<open>
  Line 89, \<^verbatim>\<open>sum()\<close> on a float64 column: pandas puts 0 where the column has \<^verbatim>\<open>NaN\<close> and
  adds the numbers up. In which order and grouping they are added depends on the length
  of the column and on the library that does it (numpy adds in pairs and in blocks), so
  the total is the value \<open>np_sum rnd t\<close> of a plan \<open>t\<close> of additions, of which the model
  fixes what every such plan has: its numbers are those of the column, zeros apart.
  \<open>sequential_plan\<close> is the plan numpy follows for a column of fewer than eight numbers:
  from 0, one number after the other.
\<close>

datatype sum_plan = Value rat | Add sum_plan sum_plan

fun leaves :: "sum_plan \<Rightarrow> rat list" where
  "leaves (Value v) = [v]"
| "leaves (Add l r) = leaves l @ leaves r"

fun np_sum :: "(rat \<Rightarrow> rat) \<Rightarrow> sum_plan \<Rightarrow> rat" where
  "np_sum rnd (Value v) = v"
| "np_sum rnd (Add l r) = rnd (np_sum rnd l + np_sum rnd r)"

definition np_sum_plan :: "frame \<Rightarrow> sum_plan \<Rightarrow> bool" where
  "np_sum_plan df t =
     (mset (filter (\<lambda>v. v \<noteq> 0) (leaves t)) =
      mset (filter (\<lambda>v. v \<noteq> 0) (zero_filled (map Closed_PnL (rows df)))))"

definition sequential_plan :: "rat list \<Rightarrow> sum_plan" where
  "sequential_plan vs = foldl (\<lambda>t v. Add t (Value v)) (Value 0) vs"

text \<open>
  No addition of numbers of \<open>vs\<close> rounds, in whatever order they are added: every sum of
  some of them is a number the rounding leaves as it is.
\<close>

definition no_rounding :: "(rat \<Rightarrow> rat) \<Rightarrow> rat list \<Rightarrow> bool" where
  "no_rounding rnd vs = list_all (\<lambda>ys. rnd (sum_list ys) = sum_list ys) (subseqs vs)"

section \<open>The join as the specification describes it\<close>

text \<open>
  The calendar dates of the sentiment file, null dates left out; the trades whose date
  is not null and is one of them; and the trade a row of \<^verbatim>\<open>df\<close> comes from.
\<close>

definition sentiment_dates :: "(string \<Rightarrow> cal_date option) \<Rightarrow> fg_row list \<Rightarrow> cal_date list" where
  "sentiment_dates to_datetime df_fg =
     concat (map (\<lambda>g. case to_datetime (fg_date g) of None \<Rightarrow> [] | Some d \<Rightarrow> [d]) df_fg)"

definition trades_with_sentiment ::
  "(string \<Rightarrow> cal_date option) \<Rightarrow> (string \<Rightarrow> cal_date option)
     \<Rightarrow> hist_row list \<Rightarrow> fg_row list \<Rightarrow> hist_row list" where
  "trades_with_sentiment to_datetime_hist to_datetime_fg df_hist df_fg =
     filter (\<lambda>h. case to_datetime_hist (hist_Timestamp_IST h) of
                   None \<Rightarrow> False
                 | Some d \<Rightarrow> d \<in> set (sentiment_dates to_datetime_fg df_fg)) df_hist"

definition trade_of :: "row \<Rightarrow> hist_row" where
  "trade_of r =
     \<lparr>hist_Timestamp_IST = Timestamp_IST r, hist_Closed_PnL = Closed_PnL r,
      hist_Side = Side r, hist_Coin = Coin r\<rparr>"

section \<open>Example inputs\<close>

text \<open>
  Concrete files for the closed theorems below. The two parsers are tables: each string
  of an example file that has the format of its column is given its calendar date, and
  every other string is \<^verbatim>\<open>NaT\<close>, as \<^verbatim>\<open>errors='coerce'\<close> makes it.
  \<^item> \<open>scenario_hist\<close> and \<open>scenario_fg\<close> are the scenario of the specification's section 8:
    three trades, of which two are on a day that has a sentiment row;
  \<^item> \<open>gaps_hist\<close> has a trade with \<^verbatim>\<open>Closed PnL\<close> 0 and, on the last day, a trade whose
    \<^verbatim>\<open>Closed PnL\<close> cell is empty;
  \<^item> \<open>ties_hist\<close> has eighteen trades with one timestamp, and \<open>ties_reordered\<close> is their
    joined rows as one partition step around the middle row leaves them (numpy's
    \<^verbatim>\<open>quicksort\<close> sorts by insertion, which keeps equal keys in place, only runs of at
    most seventeen rows);
  \<^item> \<open>unparsed_hist\<close> has a trade whose timestamp is not in the format of line 19, and
    \<open>unparsed_fg\<close> and \<open>unparsed_fg_twice\<close> have one and two rows whose date is no date;
  \<^item> \<open>rounding_hist\<close> has three trades with the float64 numbers \<^verbatim>\<open>read_csv\<close> gives the
    cells 0.2, 0.1 and 0.4, the first trade on the last day.
\<close>

definition example_to_datetime_hist :: "string \<Rightarrow> cal_date option" where
  "example_to_datetime_hist =
     map_of [(''01-02-2021 09:30'', (2021, 2, 1)),
             (''01-02-2021 17:45'', (2021, 2, 1)),
             (''02-02-2021 11:00'', (2021, 2, 2)),
             (''03-02-2021 08:15'', (2021, 2, 3))]"

definition example_to_datetime_fg :: "string \<Rightarrow> cal_date option" where
  "example_to_datetime_fg =
     map_of [(''2021-02-01'', (2021, 2, 1)),
             (''2021-02-03'', (2021, 2, 3))]"

definition trade :: "string \<Rightarrow> rat option \<Rightarrow> hist_row" where
  "trade ts pnl =
     \<lparr>hist_Timestamp_IST = ts, hist_Closed_PnL = pnl, hist_Side = ''BUY'', hist_Coin = ''BTC''\<rparr>"

definition sentiment :: "string \<Rightarrow> string \<Rightarrow> fg_row" where
  "sentiment d c = \<lparr>fg_date = d, fg_classification = c\<rparr>"

definition scenario_hist :: "hist_row list" where
  "scenario_hist =
     [trade ''01-02-2021 09:30'' (Some 100),
      trade ''01-02-2021 17:45'' (Some (-30)),
      trade ''02-02-2021 11:00'' (Some 50)]"

definition scenario_fg :: "fg_row list" where
  "scenario_fg = [sentiment ''2021-02-01'' ''Fear'', sentiment ''2021-02-03'' ''Greed'']"

definition joined :: "string \<Rightarrow> rat option \<Rightarrow> cal_date option \<Rightarrow> string \<Rightarrow> string \<Rightarrow> int \<Rightarrow> row" where
  "joined ts pnl k d c w =
     \<lparr>Timestamp_IST = ts, Closed_PnL = pnl, Side = ''BUY'', Coin = ''BTC'',
      Date_Clean = k, date = d, classification = c, Win = w\<rparr>"

definition gaps_hist :: "hist_row list" where
  "gaps_hist =
     [trade ''01-02-2021 09:30'' (Some 100),
      trade ''01-02-2021 17:45'' (Some 0),
      trade ''03-02-2021 08:15'' None]"

definition ties_hist :: "hist_row list" where
  "ties_hist =
     map (\<lambda>v. trade ''01-02-2021 09:30'' (Some v))
       [1, 2, 3, 4, 5, 6, 7, 8, 9, 10, 11, 12, 13, 14, 15, 16, 17, 18]"

definition ties_reordered :: frame where
  "ties_reordered =
     \<lparr>columns = merged_columns,
      rows = map (\<lambda>v. joined ''01-02-2021 09:30'' (Some v) (Some (2021, 2, 1)) ''2021-02-01'' ''Fear'' 1)
               [1, 16, 15, 14, 13, 12, 11, 10, 9, 8, 7, 6, 5, 4, 3, 2, 17, 18]\<rparr>"

definition unparsed_hist :: "hist_row list" where
  "unparsed_hist =
     [trade ''01-02-2021 09:30'' (Some 100),
      trade ''2021/02/01 10:00'' (Some 40)]"

definition unparsed_fg :: "fg_row list" where
  "unparsed_fg = [sentiment ''2021-02-01'' ''Fear'', sentiment ''unknown'' ''Greed'']"

definition unparsed_fg_twice :: "fg_row list" where
  "unparsed_fg_twice =
     [sentiment ''2021-02-01'' ''Fear'', sentiment ''unknown'' ''Greed'',
      sentiment ''pending'' ''Neutral'']"

definition rounding_hist :: "hist_row list" where
  "rounding_hist =
     [trade ''03-02-2021 08:15'' (Some (3602879701896397 / 18014398509481984)),
      trade ''01-02-2021 09:30'' (Some (3602879701896397 / 36028797018963968)),
      trade ''01-02-2021 17:45'' (Some (3602879701896397 / 9007199254740992))]"

section \<open>Facts about the loader and the aggregates\<close>

lemmas ex_defs = example_to_datetime_hist_def example_to_datetime_fg_def trade_def sentiment_def
  scenario_hist_def scenario_fg_def joined_def
lemmas load_defs = load_data_def try_block_def hist_Date_Clean_def fg_Date_Clean_def
  merge_inner_def keys_match_def assign_Win_def win_of_def merged_columns_def

lemma scenario_rows:
  "rows (load_data example_to_datetime_hist example_to_datetime_fg (Inr scenario_hist) (Inr scenario_fg)) =
     [joined ''01-02-2021 09:30'' (Some 100) (Some (2021, 2, 1)) ''2021-02-01'' ''Fear'' 1,
      joined ''01-02-2021 17:45'' (Some (-30)) (Some (2021, 2, 1)) ''2021-02-01'' ''Fear'' 0]"
  by (simp add: ex_defs load_defs)

lemma gaps_rows:
  "rows (load_data example_to_datetime_hist example_to_datetime_fg (Inr gaps_hist) (Inr scenario_fg)) =
     [joined ''01-02-2021 09:30'' (Some 100) (Some (2021, 2, 1)) ''2021-02-01'' ''Fear'' 1,
      joined ''01-02-2021 17:45'' (Some 0) (Some (2021, 2, 1)) ''2021-02-01'' ''Fear'' 0,
      joined ''03-02-2021 08:15'' None (Some (2021, 2, 3)) ''2021-02-03'' ''Greed'' 0]"
  by (simp add: ex_defs gaps_hist_def load_defs)

lemma rows_load_data_Inr:
  "rows (load_data ph pf (Inr H) (Inr G)) =
     map assign_Win (merge_inner (hist_Date_Clean ph H) (fg_Date_Clean pf G))"
  by (simp add: load_data_def try_block_def)

lemma load_data_cases:
  "load_data ph pf hist_csv fg_csv = empty_frame \<or>
   (\<exists>H G. hist_csv = Inr H \<and> fg_csv = Inr G \<and>
      load_data ph pf hist_csv fg_csv =
        \<lparr>columns = merged_columns,
         rows = map assign_Win (merge_inner (hist_Date_Clean ph H) (fg_Date_Clean pf G))\<rparr>)"
  by (cases hist_csv; cases fg_csv) (simp_all add: load_data_def try_block_def)

lemma Win_assign_Win: "Win (assign_Win m) = win_of (Closed_PnL (assign_Win m))"
  by (cases m) (simp add: assign_Win_def)

lemma Win_load_data:
  assumes "r \<in> set (rows (load_data ph pf hist_csv fg_csv))"
  shows "Win r = win_of (Closed_PnL r)"
proof -
  from load_data_cases [of ph pf hist_csv fg_csv] show ?thesis
  proof
    assume "load_data ph pf hist_csv fg_csv = empty_frame"
    with assms show ?thesis by (simp add: empty_frame_def)
  next
    assume "\<exists>H G. hist_csv = Inr H \<and> fg_csv = Inr G \<and>
      load_data ph pf hist_csv fg_csv =
        \<lparr>columns = merged_columns,
         rows = map assign_Win (merge_inner (hist_Date_Clean ph H) (fg_Date_Clean pf G))\<rparr>"
    with assms obtain m where "r = assign_Win m" by auto
    then show ?thesis by (simp add: Win_assign_Win)
  qed
qed

lemma Win_load_data_01:
  assumes "r \<in> set (rows (load_data ph pf hist_csv fg_csv))"
  shows "Win r = 0 \<or> Win r = 1"
  using Win_load_data [OF assms] by (auto simp: win_of_def split: option.splits)

lemma nansum_sum_list:
  "nansum xs = sum_list (map (\<lambda>x. case x of None \<Rightarrow> 0 | Some v \<Rightarrow> v) xs)"
proof (induction xs)
  case Nil
  show ?case by simp
next
  case (Cons a xs)
  then show ?case by (cases a) simp_all
qed

lemma length_cumsum_from: "length (cumsum_from a xs) = length xs"
  by (induction a xs rule: cumsum_from.induct) simp_all

lemma cumsum_from_nth:
  "i < length xs \<Longrightarrow>
   cumsum_from a xs ! i =
     (case xs ! i of None \<Rightarrow> None | Some v \<Rightarrow> Some (a + nansum (take (Suc i) xs)))"
proof (induction a xs arbitrary: i rule: cumsum_from.induct)
  case (1 acc)
  then show ?case by simp
next
  case (2 acc xs)
  then show ?case by (cases i) (simp_all split: option.splits)
next
  case (3 acc v xs)
  then show ?case by (cases i) (simp_all add: add.assoc split: option.splits)
qed

lemma cumsum_from_eq_Nil: "cumsum_from a xs = [] \<longleftrightarrow> xs = []"
  by (metis length_cumsum_from length_0_conv)

lemma sum_list_Win_bounds:
  assumes "\<And>r. r \<in> set rs \<Longrightarrow> Win r = 0 \<or> Win r = 1"
  shows "0 \<le> sum_list (map Win rs) \<and> sum_list (map Win rs) \<le> int (length rs)"
  using assms
proof (induction rs)
  case Nil
  show ?case by simp
next
  case (Cons r rs)
  then have "Win r = 0 \<or> Win r = 1" and
    "0 \<le> sum_list (map Win rs) \<and> sum_list (map Win rs) \<le> int (length rs)"
    by simp_all
  then show ?case by auto
qed

lemma sum_list_Win_count:
  assumes "\<And>r. r \<in> set rs \<Longrightarrow> Win r = 0 \<or> Win r = 1"
  shows "sum_list (map Win rs) = int (length (filter (\<lambda>r. Win r = 1) rs))"
  using assms
proof (induction rs)
  case Nil
  show ?case by simp
next
  case (Cons r rs)
  then have "Win r = 0 \<or> Win r = 1" and
    "sum_list (map Win rs) = int (length (filter (\<lambda>r. Win r = 1) rs))"
    by simp_all
  then show ?case by auto
qed

lemma ties_rows:
  "rows (load_data example_to_datetime_hist example_to_datetime_fg (Inr ties_hist) (Inr scenario_fg)) =
     map (\<lambda>v. joined ''01-02-2021 09:30'' (Some v) (Some (2021, 2, 1)) ''2021-02-01'' ''Fear'' 1)
       [1, 2, 3, 4, 5, 6, 7, 8, 9, 10, 11, 12, 13, 14, 15, 16, 17, 18]"
  by (simp add: ex_defs ties_hist_def load_defs)

lemma ties_columns:
  "columns (load_data example_to_datetime_hist example_to_datetime_fg (Inr ties_hist) (Inr scenario_fg)) =
     merged_columns"
  by (simp add: load_data_def try_block_def)

lemma ties_admissible:
  "sort_values_result
     (load_data example_to_datetime_hist example_to_datetime_fg (Inr ties_hist) (Inr scenario_fg))
     ties_reordered"
  unfolding sort_values_result_def ties_rows ties_columns
  by (simp add: ties_reordered_def joined_def isna_def)

lemma ties_stable:
  "rows (stable_sort_values
     (load_data example_to_datetime_hist example_to_datetime_fg (Inr ties_hist) (Inr scenario_fg))) =
     map (\<lambda>v. joined ''01-02-2021 09:30'' (Some v) (Some (2021, 2, 1)) ''2021-02-01'' ''Fear'' 1)
       [1, 2, 3, 4, 5, 6, 7, 8, 9, 10, 11, 12, 13, 14, 15, 16, 17, 18]"
  unfolding stable_sort_values_def
  by (simp add: ties_rows joined_def)

subsection \<open>The stable order is one the sort may return\<close>

lemma key_le_total: "\<not> key_le a b \<Longrightarrow> key_le b a"
  by (cases a; cases b) auto

lemma key_le_trans: "key_le a b \<Longrightarrow> key_le b c \<Longrightarrow> key_le a c"
  by (cases a; cases b; cases c) auto

lemma mset_insort_date: "mset (insort_date x ys) = add_mset x (mset ys)"
  by (induction ys) simp_all

lemma set_insort_date: "set (insort_date x ys) = insert x (set ys)"
  by (induction ys) auto

lemma sorted_insort_date:
  assumes "sorted_wrt key_le (map Date_Clean ys)"
  shows "sorted_wrt key_le (map Date_Clean (insort_date x ys))"
  using assms
proof (induction ys)
  case Nil
  show ?case by simp
next
  case (Cons y ys)
  show ?case
  proof (cases "key_le (Date_Clean x) (Date_Clean y)")
    case True
    with Cons.prems show ?thesis by (auto intro: key_le_trans)
  next
    case False
    then have "key_le (Date_Clean y) (Date_Clean x)" by (rule key_le_total)
    with False Cons show ?thesis by (auto simp: set_insort_date)
  qed
qed

lemma filter_isna_insort_date:
  "filter isna (insort_date x ys) = (if isna x then x # filter isna ys else filter isna ys)"
proof (induction ys)
  case Nil
  show ?case by simp
next
  case (Cons y ys)
  show ?case
  proof (cases "key_le (Date_Clean x) (Date_Clean y)")
    case True
    then show ?thesis by simp
  next
    case False
    then have "\<not> isna y \<or> \<not> isna x"
      by (cases "Date_Clean x"; cases "Date_Clean y") (auto simp: isna_def)
    moreover from False have "isna x \<longrightarrow> \<not> isna y"
      by (cases "Date_Clean x"; cases "Date_Clean y") (auto simp: isna_def)
    ultimately show ?thesis using False Cons.IH by auto
  qed
qed

lemma mset_foldr_insort_date: "mset (foldr insort_date xs []) = mset xs"
  by (induction xs) (simp_all add: mset_insort_date)

lemma sorted_foldr_insort_date: "sorted_wrt key_le (map Date_Clean (foldr insort_date xs []))"
  by (induction xs) (simp_all add: sorted_insort_date)

lemma filter_isna_foldr_insort_date: "filter isna (foldr insort_date xs []) = filter isna xs"
  by (induction xs) (simp_all add: filter_isna_insort_date)

lemma sort_values_result_stable: "sort_values_result df (stable_sort_values df)"
  by (simp add: sort_values_result_def stable_sort_values_def mset_foldr_insort_date
      sorted_foldr_insort_date filter_isna_foldr_insort_date)

lemma sort_values_result_length:
  "sort_values_result df s \<Longrightarrow> length (rows s) = length (rows df)"
  by (auto simp: sort_values_result_def dest: mset_eq_length)

lemma length_cumulative_pnl: "length (cumulative_pnl s) = length (rows s)"
  by (simp add: cumulative_pnl_def cumsum_def length_cumsum_from)

lemma cumulative_pnl_nth:
  assumes "i < length (rows s)"
  shows "cumulative_pnl s ! i =
           (Date_Clean (rows s ! i),
            case Closed_PnL (rows s ! i) of
              None \<Rightarrow> None
            | Some v \<Rightarrow> Some (nansum (map Closed_PnL (take (Suc i) (rows s)))))"
  using assms
  by (simp add: cumulative_pnl_def cumsum_def length_cumsum_from cumsum_from_nth take_map
      split: option.splits)

subsection \<open>The join when every sentiment date parses\<close>

text \<open>
  With no null date in the sentiment file and no calendar date twice in it, the rows of
  \<^verbatim>\<open>df\<close> come, in order and once each, from exactly the trades whose date is not null and
  is a date of the sentiment file; and every row of \<^verbatim>\<open>df\<close>, whatever the files, carries
  the date string and the classification of a sentiment row whose key matches its own.
\<close>

lemma trade_of_assign_Win: "trade_of (assign_Win (h, k, g)) = h"
  by (simp add: trade_of_def assign_Win_def)

lemma no_match_for_null_key:
  assumes "list_all (\<lambda>g. pf (fg_date g) \<noteq> None) G"
  shows "filter (\<lambda>(g, k'). keys_match None k') (fg_Date_Clean pf G) = []"
  using assms by (induction G) (auto simp: fg_Date_Clean_def keys_match_def)

lemma sentiment_dates_Nil: "sentiment_dates pf [] = []"
  by (simp add: sentiment_dates_def)

lemma sentiment_dates_Cons:
  "sentiment_dates pf (g # G) =
     (case pf (fg_date g) of None \<Rightarrow> sentiment_dates pf G | Some d \<Rightarrow> d # sentiment_dates pf G)"
  by (simp add: sentiment_dates_def split: option.splits)

lemma fg_Date_Clean_Cons:
  "fg_Date_Clean pf (g # G) = (g, pf (fg_date g)) # fg_Date_Clean pf G"
  by (simp add: fg_Date_Clean_def)

lemma matches_for_date:
  assumes "distinct (sentiment_dates pf G)"
  shows "length (filter (\<lambda>(g, k'). keys_match (Some d) k') (fg_Date_Clean pf G)) =
           (if d \<in> set (sentiment_dates pf G) then 1 else 0)"
  using assms
proof (induction G)
  case Nil
  show ?case by (simp add: fg_Date_Clean_def sentiment_dates_Nil)
next
  case (Cons g G)
  show ?case
  proof (cases "pf (fg_date g)")
    case None
    with Cons show ?thesis
      by (simp add: fg_Date_Clean_Cons sentiment_dates_Cons keys_match_def)
  next
    case (Some e)
    with Cons.prems have d: "e \<notin> set (sentiment_dates pf G)" "distinct (sentiment_dates pf G)"
      by (simp_all add: sentiment_dates_Cons)
    show ?thesis
    proof (cases "d = e")
      case True
      with d Cons.IH Some show ?thesis
        by (simp add: fg_Date_Clean_Cons sentiment_dates_Cons keys_match_def)
    next
      case False
      with d Cons.IH Some show ?thesis
        by (simp add: fg_Date_Clean_Cons sentiment_dates_Cons keys_match_def)
    qed
  qed
qed

lemma rows_load_data_Cons:
  "rows (load_data ph pf (Inr (h # H)) (Inr G)) =
     map (\<lambda>(g, k'). assign_Win (h, ph (hist_Timestamp_IST h), g))
       (filter (\<lambda>(g, k'). keys_match (ph (hist_Timestamp_IST h)) k') (fg_Date_Clean pf G))
     @ rows (load_data ph pf (Inr H) (Inr G))"
  by (simp add: load_data_def try_block_def merge_inner_def hist_Date_Clean_def
      case_prod_unfold comp_def)

lemma map_const_replicate: "map (\<lambda>x. c) xs = replicate (length xs) c"
  by (induction xs) simp_all

lemma joined_rows_when_sentiment_dates_parse:
  assumes "distinct (sentiment_dates pf G)"
    and "list_all (\<lambda>g. pf (fg_date g) \<noteq> None) G"
  shows "map trade_of (rows (load_data ph pf (Inr H) (Inr G))) = trades_with_sentiment ph pf H G"
proof (induction H)
  case Nil
  show ?case
    by (simp add: load_data_def try_block_def merge_inner_def hist_Date_Clean_def
        trades_with_sentiment_def)
next
  case (Cons h H)
  let ?F = "filter (\<lambda>(g, k'). keys_match (ph (hist_Timestamp_IST h)) k') (fg_Date_Clean pf G)"
  have "map trade_of (map (\<lambda>(g, k'). assign_Win (h, ph (hist_Timestamp_IST h), g)) ?F)
          = replicate (length ?F) h"
    by (simp add: comp_def case_prod_unfold trade_of_assign_Win map_const_replicate)
  moreover have "replicate (length ?F) h =
      (case ph (hist_Timestamp_IST h) of
         None \<Rightarrow> []
       | Some d \<Rightarrow> if d \<in> set (sentiment_dates pf G) then [h] else [])"
  proof (cases "ph (hist_Timestamp_IST h)")
    case None
    then show ?thesis by (simp add: no_match_for_null_key [OF assms(2)])
  next
    case (Some d)
    then show ?thesis by (simp add: matches_for_date [OF assms(1)])
  qed
  ultimately show ?case
    using Cons.IH
    by (simp add: rows_load_data_Cons trades_with_sentiment_def split: option.splits)
qed

lemma joined_row_sentiment:
  assumes "r \<in> set (rows (load_data ph pf (Inr H) (Inr G)))"
  shows "\<exists>g \<in> set G. keys_match (Date_Clean r) (pf (fg_date g)) \<and>
           date r = fg_date g \<and> classification r = fg_classification g"
  using assms
  by (auto simp: load_data_def try_block_def merge_inner_def hist_Date_Clean_def
      fg_Date_Clean_def assign_Win_def)

subsection \<open>Sums in float64\<close>

lemma subseqs_of_submultiset:
  "A \<subseteq># mset vs \<Longrightarrow> \<exists>ys \<in> set (subseqs vs). mset ys = A"
proof (induction vs arbitrary: A)
  case Nil
  then show ?case by simp
next
  case (Cons v vs)
  have d: "A - {#v#} \<subseteq># mset vs"
    using Cons.prems by (simp add: subset_eq_diff_conv)
  then obtain ys where ys: "ys \<in> set (subseqs vs)" "mset ys = A - {#v#}"
    using Cons.IH by blast
  show ?case
  proof (cases "v \<in># A")
    case True
    with ys have "mset (v # ys) = A" by simp
    moreover from ys have "v # ys \<in> set (subseqs (v # vs))" by (simp add: Let_def)
    ultimately show ?thesis by blast
  next
    case False
    with ys have "mset ys = A" by simp
    moreover from ys have "ys \<in> set (subseqs (v # vs))" by (simp add: Let_def)
    ultimately show ?thesis by blast
  qed
qed

lemma no_rounding_submultiset:
  assumes "no_rounding rnd vs" and "A \<subseteq># mset vs"
  shows "rnd (sum_mset A) = sum_mset A"
proof -
  from assms(2) obtain ys where ys: "ys \<in> set (subseqs vs)" "mset ys = A"
    using subseqs_of_submultiset by blast
  from assms(1) ys(1) have "rnd (sum_list ys) = sum_list ys"
    by (simp add: no_rounding_def list_all_iff)
  moreover have "sum_mset A = sum_list ys"
    using ys(2) by (metis sum_mset_sum_list)
  ultimately show ?thesis by simp
qed

lemma no_rounding_sublist:
  assumes "no_rounding rnd vs" and "mset ys \<subseteq># mset vs"
  shows "rnd (sum_list ys) = sum_list ys"
  using no_rounding_submultiset [OF assms] by (simp add: sum_mset_sum_list)

lemma sum_list_filter_nonzero: "sum_list (filter (\<lambda>v. v \<noteq> 0) vs) = sum_list (vs :: rat list)"
  by (induction vs) simp_all

lemma np_sum_exact:
  assumes "no_rounding rnd vs"
  shows "mset (filter (\<lambda>v. v \<noteq> 0) (leaves t)) \<subseteq># mset vs \<Longrightarrow> np_sum rnd t = sum_list (leaves t)"
proof (induction t)
  case (Value v)
  show ?case by simp
next
  case (Add l r)
  have "mset (filter (\<lambda>v. v \<noteq> 0) (leaves l)) \<subseteq># mset (filter (\<lambda>v. v \<noteq> 0) (leaves (Add l r)))"
    by simp
  then have l: "mset (filter (\<lambda>v. v \<noteq> 0) (leaves l)) \<subseteq># mset vs"
    using Add.prems by (rule subset_mset.order_trans)
  have "mset (filter (\<lambda>v. v \<noteq> 0) (leaves r)) \<subseteq># mset (filter (\<lambda>v. v \<noteq> 0) (leaves (Add l r)))"
    by simp
  then have r: "mset (filter (\<lambda>v. v \<noteq> 0) (leaves r)) \<subseteq># mset vs"
    using Add.prems by (rule subset_mset.order_trans)
  from l r Add.IH have lr: "np_sum rnd l = sum_list (leaves l)" "np_sum rnd r = sum_list (leaves r)"
    by simp_all
  have "rnd (sum_list (filter (\<lambda>v. v \<noteq> 0) (leaves (Add l r)))) =
          sum_list (filter (\<lambda>v. v \<noteq> 0) (leaves (Add l r)))"
    using assms Add.prems by (rule no_rounding_sublist)
  then have "rnd (sum_list (leaves (Add l r))) = sum_list (leaves (Add l r))"
    by (simp only: sum_list_filter_nonzero)
  with lr show ?case by simp
qed

lemma length_accumulate: "length (accumulate rnd acc vs) = length vs"
  by (induction vs arbitrary: acc) simp_all

lemma accumulate_eq_Nil: "accumulate rnd acc vs = [] \<longleftrightarrow> vs = []"
  by (cases vs) simp_all

lemma length_np_cumsum: "length (np_cumsum rnd vs) = length vs"
  by (cases vs) (simp_all add: np_cumsum_def length_accumulate)

lemma last_accumulate:
  assumes "vs \<noteq> []"
    and "\<And>k. 0 < k \<Longrightarrow> k \<le> length vs \<Longrightarrow>
           rnd (acc + sum_list (take k vs)) = acc + sum_list (take k vs)"
  shows "last (accumulate rnd acc vs) = acc + sum_list vs"
  using assms
proof (induction vs arbitrary: acc)
  case Nil
  then show ?case by simp
next
  case (Cons v vs)
  from Cons.prems(2) [of 1] have one: "rnd (acc + v) = acc + v" by simp
  show ?case
  proof (cases "vs = []")
    case True
    with one show ?thesis by simp
  next
    case False
    have "rnd (acc + v + sum_list (take k vs)) = acc + v + sum_list (take k vs)"
      if "0 < k" "k \<le> length vs" for k
      using Cons.prems(2) [of "Suc k"] that by (simp add: add.assoc)
    with False have "last (accumulate rnd (acc + v) vs) = acc + v + sum_list vs"
      by (rule Cons.IH)
    with False one show ?thesis
      by (simp add: add.assoc accumulate_eq_Nil)
  qed
qed

lemma last_np_cumsum:
  assumes "vs \<noteq> []"
    and "\<And>k. 0 < k \<Longrightarrow> k \<le> length vs \<Longrightarrow> rnd (sum_list (take k vs)) = sum_list (take k vs)"
  shows "last (np_cumsum rnd vs) = sum_list vs"
proof (cases vs)
  case Nil
  with assms(1) show ?thesis by simp
next
  case (Cons v vs')
  show ?thesis
  proof (cases "vs' = []")
    case True
    with Cons show ?thesis by (simp add: np_cumsum_def)
  next
    case False
    have "rnd (v + sum_list (take k vs')) = v + sum_list (take k vs')"
      if "0 < k" "k \<le> length vs'" for k
      using assms(2) [of "Suc k"] that Cons by simp
    with False have "last (accumulate rnd v vs') = v + sum_list vs'"
      by (rule last_accumulate)
    with False Cons show ?thesis
      by (simp add: np_cumsum_def accumulate_eq_Nil)
  qed
qed

lemma last_float_cumsum:
  assumes "xs \<noteq> []" and "last xs = Some v"
  shows "last (float_cumsum rnd xs) = Some (last (np_cumsum rnd (zero_filled xs)))"
proof -
  let ?cs = "np_cumsum rnd (zero_filled xs)"
  have len: "length xs = length ?cs"
    by (simp add: length_np_cumsum zero_filled_def)
  with assms(1) have ne: "?cs \<noteq> []" by auto
  have "last (zip xs ?cs) = (last xs, last ?cs)"
    using assms(1) ne len by (rule last_zip)
  moreover have "zip xs ?cs \<noteq> []"
    using assms(1) ne by (cases xs; cases ?cs) simp_all
  ultimately show ?thesis
    using assms(2) by (simp add: float_cumsum_def last_map)
qed

lemma mset_take_subset: "mset (take k xs) \<subseteq># mset xs"
  by (metis append_take_drop_id mset_append mset_subset_eq_add_left)

lemma length_float_cumsum: "length (float_cumsum rnd xs) = length xs"
  by (simp add: float_cumsum_def length_np_cumsum zero_filled_def)

lemma total_pnl_zero_filled: "total_pnl df = sum_list (zero_filled (map Closed_PnL (rows df)))"
  by (simp add: total_pnl_def nansum_sum_list zero_filled_def)

lemma np_sum_of_plan:
  assumes "np_sum_plan df t"
    and "no_rounding rnd (zero_filled (map Closed_PnL (rows df)))"
  shows "np_sum rnd t = total_pnl df"
proof -
  let ?zd = "zero_filled (map Closed_PnL (rows df))"
  let ?nz = "\<lambda>v :: rat. v \<noteq> 0"
  from assms(1) have eq: "mset (filter ?nz (leaves t)) = mset (filter ?nz ?zd)"
    by (simp add: np_sum_plan_def)
  have "mset (filter ?nz ?zd) \<subseteq># mset ?zd"
    by simp
  with eq have "mset (filter ?nz (leaves t)) \<subseteq># mset ?zd"
    by simp
  with assms(2) have "np_sum rnd t = sum_list (leaves t)"
    by (rule np_sum_exact)
  also have "\<dots> = sum_list (filter ?nz (leaves t))"
    by (simp only: sum_list_filter_nonzero)
  also have "\<dots> = sum_mset (mset (filter ?nz (leaves t)))"
    by (simp only: sum_mset_sum_list)
  also have "\<dots> = sum_mset (mset (filter ?nz ?zd))"
    by (simp only: eq)
  also have "\<dots> = sum_list (filter ?nz ?zd)"
    by (simp only: sum_mset_sum_list)
  also have "\<dots> = sum_list ?zd"
    by (simp only: sum_list_filter_nonzero)
  finally show ?thesis by (simp only: total_pnl_zero_filled)
qed

lemma accumulate_exact:
  "map (\<lambda>(x, c). case x of None \<Rightarrow> None | Some v \<Rightarrow> Some c)
     (zip xs (accumulate (\<lambda>x. x) acc (zero_filled xs))) = cumsum_from acc xs"
proof (induction xs arbitrary: acc)
  case Nil
  show ?case by (simp add: zero_filled_def)
next
  case (Cons x xs)
  then show ?case by (cases x) (simp_all add: zero_filled_def)
qed

lemma float_cumsum_exact: "float_cumsum (\<lambda>x. x) xs = cumsum xs"
proof (cases xs)
  case Nil
  then show ?thesis by (simp add: float_cumsum_def cumsum_def zero_filled_def np_cumsum_def)
next
  case (Cons x xs')
  show ?thesis
  proof (cases x)
    case None
    with Cons accumulate_exact [of xs' 0] show ?thesis
      by (simp add: float_cumsum_def cumsum_def zero_filled_def np_cumsum_def)
  next
    case (Some v)
    with Cons accumulate_exact [of xs' v] show ?thesis
      by (simp add: float_cumsum_def cumsum_def zero_filled_def np_cumsum_def)
  qed
qed

lemma float_cumulative_pnl_exact: "float_cumulative_pnl (\<lambda>x. x) s = cumulative_pnl s"
  by (simp add: float_cumulative_pnl_def cumulative_pnl_def float_cumsum_exact)

lemma np_sum_exact_arithmetic: "np_sum (\<lambda>x. x) t = sum_list (leaves t)"
  by (induction t) simp_all

lemma nearest_float64:
  "binary64 (2 / 10) = 3602879701896397 / 18014398509481984 \<and>
   binary64 (1 / 10) = 3602879701896397 / 36028797018963968 \<and>
   binary64 (4 / 10) = 3602879701896397 / 9007199254740992 \<and>
   binary64 (7 / 10) = 6305039478318694 / 9007199254740992"
  by code_simp

lemma rounding_rows:
  "rows (load_data example_to_datetime_hist example_to_datetime_fg (Inr rounding_hist) (Inr scenario_fg)) =
     [joined ''03-02-2021 08:15'' (Some (3602879701896397 / 18014398509481984))
        (Some (2021, 2, 3)) ''2021-02-03'' ''Greed'' 1,
      joined ''01-02-2021 09:30'' (Some (3602879701896397 / 36028797018963968))
        (Some (2021, 2, 1)) ''2021-02-01'' ''Fear'' 1,
      joined ''01-02-2021 17:45'' (Some (3602879701896397 / 9007199254740992))
        (Some (2021, 2, 1)) ''2021-02-01'' ''Fear'' 1]"
  by (simp add: ex_defs rounding_hist_def load_defs)

lemma rounding_sorted_rows:
  "rows (stable_sort_values
     (load_data example_to_datetime_hist example_to_datetime_fg (Inr rounding_hist) (Inr scenario_fg))) =
     [joined ''01-02-2021 09:30'' (Some (3602879701896397 / 36028797018963968))
        (Some (2021, 2, 1)) ''2021-02-01'' ''Fear'' 1,
      joined ''01-02-2021 17:45'' (Some (3602879701896397 / 9007199254740992))
        (Some (2021, 2, 1)) ''2021-02-01'' ''Fear'' 1,
      joined ''03-02-2021 08:15'' (Some (3602879701896397 / 18014398509481984))
        (Some (2021, 2, 3)) ''2021-02-03'' ''Greed'' 1]"
  by (simp add: stable_sort_values_def rounding_rows joined_def)

lemma rounding_float_cumsum:
  "float_cumsum binary64
     [Some (3602879701896397 / 36028797018963968),
      Some (3602879701896397 / 9007199254740992),
      Some (3602879701896397 / 18014398509481984)] =
     [Some (3602879701896397 / 36028797018963968),
      Some (1 / 2),
      Some (6305039478318694 / 9007199254740992)]"
  by code_simp

lemma rounding_np_sum:
  "np_sum binary64
     (sequential_plan
        [3602879701896397 / 18014398509481984,
         3602879701896397 / 36028797018963968,
         3602879701896397 / 9007199254740992]) =
     6305039478318695 / 9007199254740992"
  by code_simp

lemma gaps_float_cumsum:
  "float_cumsum binary64 [Some 100, Some 0, None] = [Some 100, Some 100, None]"
  by code_simp

lemma gaps_np_sum: "np_sum binary64 (sequential_plan [100, 0, 0]) = 100"
  by code_simp

lemma scenario_no_rounding: "no_rounding binary64 [100, - 30]"
  by code_simp

section \<open>The claims\<close>

text \<open>
  C1. A record whose date string does not parse gets the null date and is to be left
  out of the join: no trade with a null date in the joined frame, also when the sentiment
  file has a row with a null date. The code does not do that: a trade whose timestamp
  does not parse and a sentiment row whose date does not parse both get the null date,
  and \<^verbatim>\<open>pd.merge\<close> matches null keys with each other. On \<open>unparsed_hist\<close> and
  \<open>unparsed_fg\<close> the loader returns the trade with the null date as a row, with the
  classification of the sentiment row that has no date.
\<close>

theorem null_dates_joined:
  "example_to_datetime_hist ''2021/02/01 10:00'' = None \<and>
   example_to_datetime_fg ''unknown'' = None \<and>
   rows (load_data example_to_datetime_hist example_to_datetime_fg (Inr unparsed_hist) (Inr unparsed_fg)) =
     [joined ''01-02-2021 09:30'' (Some 100) (Some (2021, 2, 1)) ''2021-02-01'' ''Fear'' 1,
      joined ''2021/02/01 10:00'' (Some 40) None ''unknown'' ''Greed'' 1]"
  by (simp add: ex_defs unparsed_hist_def unparsed_fg_def load_defs)

text \<open>
  C2, as stated, fails on the code: the order of rows with equal dates is not the
  original one in every frame \<^verbatim>\<open>sort_values\<close> may return. For eighteen trades of one day,
  \<open>ties_reordered\<close> is such a frame, and its running total after two rows is 17 where the
  stable order gives 3.
\<close>

theorem stable_order_counterexample:
  "sort_values_result
     (load_data example_to_datetime_hist example_to_datetime_fg (Inr ties_hist) (Inr scenario_fg))
     ties_reordered \<and>
   cumulative_pnl ties_reordered ! 1 = (Some (2021, 2, 1), Some 17) \<and>
   cumulative_pnl (stable_sort_values
     (load_data example_to_datetime_hist example_to_datetime_fg (Inr ties_hist) (Inr scenario_fg))) ! 1
     = (Some (2021, 2, 1), Some 3)"
proof -
  have "cumulative_pnl ties_reordered ! 1 = (Some (2021, 2, 1), Some 17)"
    by (simp add: cumulative_pnl_def cumsum_def ties_reordered_def joined_def)
  moreover have "cumulative_pnl (stable_sort_values
     (load_data example_to_datetime_hist example_to_datetime_fg (Inr ties_hist) (Inr scenario_fg))) ! 1
     = (Some (2021, 2, 1), Some 3)"
    by (simp add: cumulative_pnl_def cumsum_def ties_stable joined_def)
  ultimately show ?thesis using ties_admissible by simp
qed

text \<open>
  C2, amended. The cumulative PnL series is computed from the joined rows sorted
  ascending by calendar date, rows with a null date last, in an order among rows of equal
  date that the sort does not fix. It pairs each row's date with the running sum of
  \<^verbatim>\<open>Closed PnL\<close> up to and including that row, a row with a missing \<^verbatim>\<open>Closed PnL\<close> adding
  nothing and showing a missing total, and its length is the trade count.
\<close>

theorem cumulative_pnl_sorted_running_sum:
  assumes "sort_values_result df s"
  shows "mset (rows s) = mset (rows df) \<and>
         sorted_wrt key_le (map Date_Clean (rows s)) \<and>
         length (cumulative_pnl s) = trade_count df \<and>
         (\<forall>i < length (rows s).
            cumulative_pnl s ! i =
              (Date_Clean (rows s ! i),
               case Closed_PnL (rows s ! i) of
                 None \<Rightarrow> None
               | Some v \<Rightarrow> Some (nansum (map Closed_PnL (take (Suc i) (rows s))))))"
proof -
  from assms have "mset (rows s) = mset (rows df)"
    and "sorted_wrt key_le (map Date_Clean (rows s))"
    by (simp_all add: sort_values_result_def)
  moreover have "length (cumulative_pnl s) = trade_count df"
    using assms by (simp add: length_cumulative_pnl sort_values_result_length trade_count_def)
  ultimately show ?thesis
    by (simp add: cumulative_pnl_nth)
qed

theorem cumulative_pnl_sorted_running_sum_witness:
  "sort_values_result
     (load_data example_to_datetime_hist example_to_datetime_fg (Inr scenario_hist) (Inr scenario_fg))
     (stable_sort_values
       (load_data example_to_datetime_hist example_to_datetime_fg (Inr scenario_hist) (Inr scenario_fg))) \<and>
   cumulative_pnl (stable_sort_values
       (load_data example_to_datetime_hist example_to_datetime_fg (Inr scenario_hist) (Inr scenario_fg)))
     = [(Some (2021, 2, 1), Some 100), (Some (2021, 2, 1), Some 70)] \<and>
   trade_count
     (load_data example_to_datetime_hist example_to_datetime_fg (Inr scenario_hist) (Inr scenario_fg)) = 2"
proof -
  let ?df = "load_data example_to_datetime_hist example_to_datetime_fg
               (Inr scenario_hist) (Inr scenario_fg)"
  have a: "sort_values_result ?df (stable_sort_values ?df)"
    by (rule sort_values_result_stable)
  have r: "rows (stable_sort_values ?df) =
     [joined ''01-02-2021 09:30'' (Some 100) (Some (2021, 2, 1)) ''2021-02-01'' ''Fear'' 1,
      joined ''01-02-2021 17:45'' (Some (-30)) (Some (2021, 2, 1)) ''2021-02-01'' ''Fear'' 0]"
    by (simp add: stable_sort_values_def scenario_rows joined_def)
  have c: "cumulative_pnl (stable_sort_values ?df) =
      [(Some (2021, 2, 1), Some 100), (Some (2021, 2, 1), Some 70)]"
    by (simp add: cumulative_pnl_def cumsum_def r joined_def)
  from cumulative_pnl_sorted_running_sum [OF a] a c show ?thesis
    by simp
qed



text \<open>
  C4. The win rate is the mean of the \<^verbatim>\<open>Win\<close> column over all rows of the loaded frame.
  With at least one row it is a number between 0 and 1; with no row it is \<^verbatim>\<open>NaN\<close>, and
  no exception is raised.
\<close>

theorem win_rate_range:
  assumes "df = load_data to_datetime_hist to_datetime_fg hist_csv fg_csv"
  shows "(0 < trade_count df \<longrightarrow>
            (\<exists>p. win_rate df = Some p \<and> 0 \<le> p \<and> p \<le> 1 \<and>
                 p = of_int (sum_list (map Win (rows df))) / of_nat (trade_count df))) \<and>
         (trade_count df = 0 \<longrightarrow> win_rate df = None)"
proof -
  have b: "0 \<le> sum_list (map Win (rows df)) \<and> sum_list (map Win (rows df)) \<le> int (length (rows df))"
    by (rule sum_list_Win_bounds) (simp add: assms Win_load_data_01)
  show ?thesis
  proof (cases "rows df = []")
    case True
    then show ?thesis by (simp add: win_rate_def mean_of_def trade_count_def)
  next
    case False
    let ?p = "(of_int (sum_list (map Win (rows df))) :: rat) / of_nat (length (rows df))"
    have n: "(0::rat) < of_nat (length (rows df))" using False by simp
    have "0 \<le> ?p" using b n by simp
    moreover have "?p \<le> 1"
    proof -
      have "(of_int (sum_list (map Win (rows df))) :: rat) \<le> of_int (int (length (rows df)))"
        using b by (simp only: of_int_le_iff)
      then show ?thesis using n by simp
    qed
    moreover have "win_rate df = Some ?p"
      using False by (simp add: win_rate_def mean_of_def)
    ultimately show ?thesis using False by (simp add: trade_count_def)
  qed
qed

theorem win_rate_range_witness:
  "0 < trade_count (load_data example_to_datetime_hist example_to_datetime_fg
                      (Inr scenario_hist) (Inr scenario_fg)) \<and>
   win_rate (load_data example_to_datetime_hist example_to_datetime_fg
               (Inr scenario_hist) (Inr scenario_fg)) = Some (1 / 2)"
  using win_rate_range [OF refl, of example_to_datetime_hist example_to_datetime_fg
      "Inr scenario_hist" "Inr scenario_fg"]
  by (simp add: trade_count_def win_rate_def mean_of_def scenario_rows joined_def)

text \<open>
  C5. With at most one sentiment row for each calendar date, the joined frame is to hold
  exactly the trades whose date is not null and is a date of the sentiment file, and as
  many rows as there are such trades. The code does not do that, by the defect of C1: in
  \<open>unparsed_fg_twice\<close> no calendar date occurs twice and one trade of \<open>unparsed_hist\<close> has
  a date of the sentiment file, but the joined frame has three rows, the trade whose
  timestamp does not parse being joined with both sentiment rows that have no date.
\<close>

theorem null_dates_fan_out:
  "distinct (sentiment_dates example_to_datetime_fg unparsed_fg_twice) \<and>
   trades_with_sentiment example_to_datetime_hist example_to_datetime_fg unparsed_hist unparsed_fg_twice =
     [trade ''01-02-2021 09:30'' (Some 100)] \<and>
   rows (load_data example_to_datetime_hist example_to_datetime_fg (Inr unparsed_hist) (Inr unparsed_fg_twice)) =
     [joined ''01-02-2021 09:30'' (Some 100) (Some (2021, 2, 1)) ''2021-02-01'' ''Fear'' 1,
      joined ''2021/02/01 10:00'' (Some 40) None ''unknown'' ''Greed'' 1,
      joined ''2021/02/01 10:00'' (Some 40) None ''pending'' ''Neutral'' 1]"
  by (simp add: ex_defs unparsed_hist_def unparsed_fg_twice_def load_defs sentiment_dates_def
      trades_with_sentiment_def)



text \<open>
  C7, as stated, fails on the code, in two ways. In the joined frame of \<open>gaps_hist\<close> the
  last row by date has no \<^verbatim>\<open>Closed PnL\<close>: the last element of the cumulative series is
  \<^verbatim>\<open>NaN\<close> while the total is 100. In the joined frame of \<open>rounding_hist\<close> no value is
  missing, but line 89 adds 0.2, 0.1, 0.4 in the order of the file and line 154 adds
  0.1, 0.4, 0.2 in the order of the dates, and float64 addition rounds: the last element
  of the cumulative series is the float64 number 0.7 and the total is the next float64
  number above it.
\<close>

theorem last_cumulative_pnl_counterexample:
  "sort_values_result
     (load_data example_to_datetime_hist example_to_datetime_fg (Inr gaps_hist) (Inr scenario_fg))
     (load_data example_to_datetime_hist example_to_datetime_fg (Inr gaps_hist) (Inr scenario_fg)) \<and>
   last (float_cumulative_pnl binary64
     (load_data example_to_datetime_hist example_to_datetime_fg (Inr gaps_hist) (Inr scenario_fg)))
     = (Some (2021, 2, 3), None) \<and>
   np_sum_plan
     (load_data example_to_datetime_hist example_to_datetime_fg (Inr gaps_hist) (Inr scenario_fg))
     (sequential_plan [100, 0, 0]) \<and>
   np_sum binary64 (sequential_plan [100, 0, 0]) = 100 \<and>
   sort_values_result
     (load_data example_to_datetime_hist example_to_datetime_fg (Inr rounding_hist) (Inr scenario_fg))
     (stable_sort_values
       (load_data example_to_datetime_hist example_to_datetime_fg (Inr rounding_hist) (Inr scenario_fg))) \<and>
   last (float_cumulative_pnl binary64
     (stable_sort_values
       (load_data example_to_datetime_hist example_to_datetime_fg (Inr rounding_hist) (Inr scenario_fg))))
     = (Some (2021, 2, 3), Some (6305039478318694 / 9007199254740992)) \<and>
   np_sum_plan
     (load_data example_to_datetime_hist example_to_datetime_fg (Inr rounding_hist) (Inr scenario_fg))
     (sequential_plan
        [3602879701896397 / 18014398509481984,
         3602879701896397 / 36028797018963968,
         3602879701896397 / 9007199254740992]) \<and>
   np_sum binary64
     (sequential_plan
        [3602879701896397 / 18014398509481984,
         3602879701896397 / 36028797018963968,
         3602879701896397 / 9007199254740992])
     = 6305039478318695 / 9007199254740992"
proof -
  let ?g = "load_data example_to_datetime_hist example_to_datetime_fg (Inr gaps_hist) (Inr scenario_fg)"
  let ?r = "load_data example_to_datetime_hist example_to_datetime_fg (Inr rounding_hist) (Inr scenario_fg)"
  have g1: "sort_values_result ?g ?g"
    by (simp add: sort_values_result_def gaps_rows joined_def isna_def)
  have g2: "last (float_cumulative_pnl binary64 ?g) = (Some (2021, 2, 3), None)"
    by (simp add: float_cumulative_pnl_def gaps_rows joined_def gaps_float_cumsum)
  have g3: "np_sum_plan ?g (sequential_plan [100, 0, 0])"
    by (simp add: np_sum_plan_def zero_filled_def sequential_plan_def gaps_rows joined_def)
  have r1: "sort_values_result ?r (stable_sort_values ?r)"
    by (rule sort_values_result_stable)
  have r2: "last (float_cumulative_pnl binary64 (stable_sort_values ?r)) =
      (Some (2021, 2, 3), Some (6305039478318694 / 9007199254740992))"
    by (simp add: float_cumulative_pnl_def rounding_sorted_rows joined_def rounding_float_cumsum)
  have r3: "np_sum_plan ?r (sequential_plan
        [3602879701896397 / 18014398509481984,
         3602879701896397 / 36028797018963968,
         3602879701896397 / 9007199254740992])"
    by (simp add: np_sum_plan_def zero_filled_def sequential_plan_def rounding_rows joined_def)
  from g1 g2 g3 gaps_np_sum r1 r2 r3 rounding_np_sum show ?thesis
    by (intro conjI)
qed

text \<open>
  C7, amended. For every non-empty joined frame and every order the sort may choose, if
  the last row of the sorted frame has a \<^verbatim>\<open>Closed PnL\<close> value and no addition of
  \<^verbatim>\<open>Closed PnL\<close> values of the frame rounds (every sum of some of them is a float64
  number), then the last element of the cumulative series is that row's date with the
  total PnL, in whatever order and grouping the total is added up; and the total is then
  the exact sum.
\<close>

theorem last_cumulative_pnl_total:
  assumes "rows df \<noteq> []"
    and "sort_values_result df s"
    and "Closed_PnL (last (rows s)) \<noteq> None"
    and "np_sum_plan df t"
    and "no_rounding rnd (zero_filled (map Closed_PnL (rows df)))"
  shows "last (float_cumulative_pnl rnd s) = (Date_Clean (last (rows s)), Some (np_sum rnd t)) \<and>
         np_sum rnd t = total_pnl df"
proof -
  let ?xs = "map Closed_PnL (rows s)"
  let ?zs = "zero_filled ?xs"
  let ?zd = "zero_filled (map Closed_PnL (rows df))"
  from assms(2) have m: "mset (rows s) = mset (rows df)"
    by (simp add: sort_values_result_def)
  with assms(1) have ne: "rows s \<noteq> []" by auto
  from assms(3) obtain v where v: "Closed_PnL (last (rows s)) = Some v" by auto
  have "mset (map (\<lambda>r. case Closed_PnL r of None \<Rightarrow> 0 | Some v \<Rightarrow> v) (rows s)) =
        mset (map (\<lambda>r. case Closed_PnL r of None \<Rightarrow> 0 | Some v \<Rightarrow> v) (rows df))"
    using m by (metis mset_map)
  then have mz: "mset ?zs = mset ?zd"
    by (simp add: zero_filled_def comp_def)
  have total: "np_sum rnd t = total_pnl df"
    using assms(4,5) by (rule np_sum_of_plan)
  have prefix: "rnd (sum_list (take k ?zs)) = sum_list (take k ?zs)" for k
  proof -
    have "mset (take k ?zs) \<subseteq># mset ?zd"
      using mset_take_subset [of k ?zs] mz by simp
    with assms(5) show ?thesis by (rule no_rounding_sublist)
  qed
  have zne: "?zs \<noteq> []" using ne by (simp add: zero_filled_def)
  have "last (np_cumsum rnd ?zs) = sum_list ?zs"
    using zne prefix by (rule last_np_cumsum)
  also have "\<dots> = sum_mset (mset ?zs)" by (simp only: sum_mset_sum_list)
  also have "\<dots> = sum_list ?zd" by (simp only: mz sum_mset_sum_list)
  also have "\<dots> = total_pnl df" by (simp only: total_pnl_zero_filled)
  finally have c: "last (np_cumsum rnd ?zs) = np_sum rnd t" using total by simp
  have "last (float_cumsum rnd ?xs) = Some (last (np_cumsum rnd ?zs))"
    by (rule last_float_cumsum [where v = v]) (simp_all add: ne last_map v)
  with c have l: "last (float_cumsum rnd ?xs) = Some (np_sum rnd t)" by simp
  have "float_cumsum rnd ?xs \<noteq> []"
    using ne by (metis length_float_cumsum length_map length_0_conv)
  then have "last (float_cumulative_pnl rnd s) =
          (last (map Date_Clean (rows s)), last (float_cumsum rnd ?xs))"
    unfolding float_cumulative_pnl_def
    using ne by (intro last_zip) (simp_all add: length_float_cumsum)
  with l ne total show ?thesis by (simp add: last_map)
qed

theorem last_cumulative_pnl_total_witness:
  "rows (load_data example_to_datetime_hist example_to_datetime_fg (Inr scenario_hist) (Inr scenario_fg))
     \<noteq> [] \<and>
   sort_values_result
     (load_data example_to_datetime_hist example_to_datetime_fg (Inr scenario_hist) (Inr scenario_fg))
     (load_data example_to_datetime_hist example_to_datetime_fg (Inr scenario_hist) (Inr scenario_fg)) \<and>
   np_sum_plan
     (load_data example_to_datetime_hist example_to_datetime_fg (Inr scenario_hist) (Inr scenario_fg))
     (sequential_plan [100, - 30]) \<and>
   no_rounding binary64 [100, - 30] \<and>
   last (float_cumulative_pnl binary64
     (load_data example_to_datetime_hist example_to_datetime_fg (Inr scenario_hist) (Inr scenario_fg)))
     = (Some (2021, 2, 1), Some 70) \<and>
   np_sum binary64 (sequential_plan [100, - 30]) = 70"
proof -
  let ?df = "load_data example_to_datetime_hist example_to_datetime_fg
               (Inr scenario_hist) (Inr scenario_fg)"
  have n: "rows ?df \<noteq> []"
    by (simp add: scenario_rows)
  have a: "sort_values_result ?df ?df"
    by (simp add: sort_values_result_def scenario_rows joined_def)
  have l: "Closed_PnL (last (rows ?df)) \<noteq> None"
    by (simp add: scenario_rows joined_def)
  have z: "zero_filled (map Closed_PnL (rows ?df)) = [100, - 30]"
    by (simp add: zero_filled_def scenario_rows joined_def)
  have p: "np_sum_plan ?df (sequential_plan [100, - 30])"
    by (simp add: np_sum_plan_def z sequential_plan_def)
  have t: "total_pnl ?df = 70"
    by (simp add: total_pnl_def scenario_rows joined_def)
  have d: "Date_Clean (last (rows ?df)) = Some (2021, 2, 1)"
    by (simp add: scenario_rows joined_def)
  from last_cumulative_pnl_total [OF n a l p, of binary64] scenario_no_rounding z n a p t d
  show ?thesis
    by simp
qed

text \<open>
  C9. In every row of the loaded frame \<^verbatim>\<open>Win\<close> is 0 or 1, and it is 1 exactly when the row's
  \<^verbatim>\<open>Closed PnL\<close> is a number strictly greater than 0; a trade with \<^verbatim>\<open>Closed PnL\<close> equal
  to 0 is not a win.
\<close>

theorem Win_iff_positive:
  assumes "r \<in> set (rows (load_data to_datetime_hist to_datetime_fg hist_csv fg_csv))"
  shows "(Win r = 1 \<longleftrightarrow> (\<exists>v. Closed_PnL r = Some v \<and> 0 < v)) \<and>
         (Win r = 0 \<or> Win r = 1) \<and>
         (Closed_PnL r = Some 0 \<longrightarrow> Win r = 0)"
  using Win_load_data [OF assms] by (auto simp: win_of_def split: option.splits)

theorem Win_iff_positive_witness:
  "joined ''01-02-2021 17:45'' (Some 0) (Some (2021, 2, 1)) ''2021-02-01'' ''Fear'' 0
     \<in> set (rows (load_data example_to_datetime_hist example_to_datetime_fg
                    (Inr gaps_hist) (Inr scenario_fg))) \<and>
   Closed_PnL (joined ''01-02-2021 17:45'' (Some 0) (Some (2021, 2, 1)) ''2021-02-01'' ''Fear'' 0)
     = Some 0 \<and>
   Win (joined ''01-02-2021 17:45'' (Some 0) (Some (2021, 2, 1)) ''2021-02-01'' ''Fear'' 0) \<noteq> 1"
proof -
  have m: "joined ''01-02-2021 17:45'' (Some 0) (Some (2021, 2, 1)) ''2021-02-01'' ''Fear'' 0
     \<in> set (rows (load_data example_to_datetime_hist example_to_datetime_fg
                    (Inr gaps_hist) (Inr scenario_fg)))"
    by (simp add: gaps_rows)
  from Win_iff_positive [OF m] m show ?thesis
    by (simp add: joined_def)
qed

text \<open>
  C10. A row of the loaded frame whose \<^verbatim>\<open>Closed PnL\<close> is missing has \<^verbatim>\<open>Win\<close> 0, and the
  win rate divides the number of wins by the number of all rows, that row included: it
  is counted as a loss. The rows with a value are fewer than all rows, so whenever there
  is a win the rate is strictly lower than it would be over the rows with a value.
\<close>

theorem Win_of_missing_Closed_PnL:
  assumes "df = load_data to_datetime_hist to_datetime_fg hist_csv fg_csv"
    and "r \<in> set (rows df)"
    and "Closed_PnL r = None"
  shows "Win r = 0 \<and>
         win_rate df =
           Some (of_nat (length (filter (\<lambda>r. Win r = 1) (rows df))) / of_nat (length (rows df))) \<and>
         length (filter (\<lambda>r. Closed_PnL r \<noteq> None) (rows df)) < length (rows df) \<and>
         (0 < length (filter (\<lambda>r. Win r = 1) (rows df)) \<longrightarrow>
            (of_nat (length (filter (\<lambda>r. Win r = 1) (rows df))) :: rat) / of_nat (length (rows df))
            < of_nat (length (filter (\<lambda>r. Win r = 1) (rows df)))
                / of_nat (length (filter (\<lambda>r. Closed_PnL r \<noteq> None) (rows df))))"
proof -
  let ?w = "length (filter (\<lambda>r. Win r = 1) (rows df))"
  let ?k = "length (filter (\<lambda>r. Closed_PnL r \<noteq> None) (rows df))"
  let ?n = "length (rows df)"
  have win: "Win x = win_of (Closed_PnL x)" if "x \<in> set (rows df)" for x
    using that Win_load_data assms(1) by blast
  have w0: "Win r = 0"
    using win [OF assms(2)] assms(3) by (simp add: win_of_def)
  have ne: "rows df \<noteq> []" using assms(2) by auto
  have "sum_list (map Win (rows df)) = int ?w"
    by (rule sum_list_Win_count) (simp add: assms(1) Win_load_data_01)
  then have rate: "win_rate df = Some (of_nat ?w / of_nat ?n)"
    using ne by (simp add: win_rate_def mean_of_def)
  have kn: "?k < ?n"
    using assms(2,3) length_filter_less [of r "rows df" "\<lambda>r. Closed_PnL r \<noteq> None"] by simp
  have wk: "?w \<le> ?k"
  proof -
    have "filter (\<lambda>r. Win r = 1) (rows df) =
          filter (\<lambda>r. Win r = 1) (filter (\<lambda>r. Closed_PnL r \<noteq> None) (rows df))"
      unfolding filter_filter
      by (rule filter_cong) (auto simp: win win_of_def split: option.splits)
    then show ?thesis
      by (metis length_filter_le)
  qed
  have lt: "(of_nat ?w :: rat) / of_nat ?n < of_nat ?w / of_nat ?k" if "0 < ?w"
  proof -
    have "0 < ?k" using that wk by (rule less_le_trans)
    then have "(0::rat) < of_nat ?k" "(of_nat ?k :: rat) < of_nat ?n" "(0::rat) < of_nat ?w"
      using kn that by simp_all
    then show ?thesis by (simp add: frac_less2)
  qed
  from w0 rate kn lt show ?thesis by blast
qed

theorem Win_of_missing_Closed_PnL_witness:
  "joined ''03-02-2021 08:15'' None (Some (2021, 2, 3)) ''2021-02-03'' ''Greed'' 0
     \<in> set (rows (load_data example_to_datetime_hist example_to_datetime_fg
                    (Inr gaps_hist) (Inr scenario_fg))) \<and>
   Closed_PnL (joined ''03-02-2021 08:15'' None (Some (2021, 2, 3)) ''2021-02-03'' ''Greed'' 0) = None \<and>
   win_rate (load_data example_to_datetime_hist example_to_datetime_fg
               (Inr gaps_hist) (Inr scenario_fg)) = Some (1 / 3)"
proof -
  have m: "joined ''03-02-2021 08:15'' None (Some (2021, 2, 3)) ''2021-02-03'' ''Greed'' 0
     \<in> set (rows (load_data example_to_datetime_hist example_to_datetime_fg
                    (Inr gaps_hist) (Inr scenario_fg)))"
    by (simp add: gaps_rows)
  have c: "Closed_PnL (joined ''03-02-2021 08:15'' None (Some (2021, 2, 3)) ''2021-02-03'' ''Greed'' 0) = None"
    by (simp add: joined_def)
  from Win_of_missing_Closed_PnL [OF refl m c] m c show ?thesis
    by (simp add: gaps_rows joined_def)
qed

end
